theory Spec2Isabelle
  imports Main "HOL-Library.Word"
begin

section \<open>The pricing record of \<^verbatim>\<open>src/oracle/pricing_record.cpp\<close>\<close>

text \<open>
  A shallow embedding of \<^verbatim>\<open>oracle::pricing_record\<close>: its wire codec
  (\<^verbatim>\<open>_load\<close>, \<^verbatim>\<open>store\<close>), its equality and emptiness tests, the
  signature check \<^verbatim>\<open>verifySignature\<close>, the admissibility decision
  \<^verbatim>\<open>valid\<close>, and the blob reader \<^verbatim>\<open>do_serialize\<close> of
  \<^verbatim>\<open>src/serialization/pricing_record.h\<close>.
\<close>

subsection \<open>Data model\<close>

type_synonym u8 = "8 word"
type_synonym u32 = "32 word"
type_synonym u64 = "64 word"

text \<open>
  \<^verbatim>\<open>pricing_record\<close>: four \<^verbatim>\<open>uint64_t\<close> fields and the buffer
  \<^verbatim>\<open>signature[64]\<close>. The buffer is a list of bytes; the C++ array type fixes its
  length to 64, which the theorems below carry as the hypothesis
  \<open>length (signature r) = 64\<close>.
\<close>

record pricing_record =
  pr_version :: u64
  spot :: u64
  moving_average :: u64
  timestamp :: u64
  signature :: "u8 list"

text \<open>
  \<^verbatim>\<open>pr_serialized\<close>, the local struct of the wire form (lines 41--56). Its fields
  have the names of the record's fields in the source; here they carry the prefix
  \<open>w_\<close>, since record fields are global names.
\<close>

record pr_serialized =
  w_pr_version :: u64
  w_spot :: u64
  w_moving_average :: u64
  w_timestamp :: u64
  w_signature :: string

text \<open>The default constructor (lines 59--66): all fields zero, the buffer zeroed by memset.\<close>

definition pricing_record_default :: pricing_record where
  "pricing_record_default =
     \<lparr>pr_version = 0, spot = 0, moving_average = 0, timestamp = 0,
      signature = replicate 64 0\<rparr>"

subsection \<open>The C library pieces the codec calls\<close>

text \<open>
  \<^verbatim>\<open>strtol(s, NULL, 16)\<close> of the C library, on the C string of a
  \<^verbatim>\<open>std::string\<close>: the string ends at its first NUL byte; leading white space is
  skipped; a sign and a \<^verbatim>\<open>0x\<close> prefix are optional; then the longest run of
  hexadecimal digits is read. With no digit the value is 0. The value is clamped to the
  range of a 64-bit \<^verbatim>\<open>long\<close>.
\<close>

definition c_str :: "string \<Rightarrow> string" where
  "c_str s = takeWhile (\<lambda>c. c \<noteq> CHR 0x00) s"

definition isspace :: "char \<Rightarrow> bool" where
  "isspace c = (let n = (of_char c :: nat) in n = 32 \<or> (9 \<le> n \<and> n \<le> 13))"

definition hex_digit_val :: "char \<Rightarrow> nat option" where
  "hex_digit_val c =
     (let n = (of_char c :: nat) in
      if 48 \<le> n \<and> n \<le> 57 then Some (n - 48)
      else if 97 \<le> n \<and> n \<le> 102 then Some (n - 87)
      else if 65 \<le> n \<and> n \<le> 70 then Some (n - 55)
      else None)"

fun hex_digits :: "nat \<Rightarrow> string \<Rightarrow> nat" where
  "hex_digits acc [] = acc"
| "hex_digits acc (c # cs) =
     (case hex_digit_val c of
        None \<Rightarrow> acc
      | Some d \<Rightarrow> hex_digits (16 * acc + d) cs)"

fun skip_0x :: "string \<Rightarrow> string" where
  "skip_0x (z # x # d # cs) =
     (if z = CHR ''0'' \<and> (x = CHR ''x'' \<or> x = CHR ''X'') \<and> hex_digit_val d \<noteq> None
      then d # cs else z # x # d # cs)"
| "skip_0x cs = cs"

definition LONG_MAX :: int where
  "LONG_MAX = 2 ^ 63 - 1"

definition LONG_MIN :: int where
  "LONG_MIN = - (2 ^ 63)"

definition strtol16 :: "string \<Rightarrow> int" where
  "strtol16 s =
     (let t = dropWhile isspace (c_str s);
          neg = (case t of [] \<Rightarrow> False | c # _ \<Rightarrow> c = CHR ''-'');
          u = (case t of [] \<Rightarrow> []
               | c # cs \<Rightarrow> if c = CHR ''-'' \<or> c = CHR ''+'' then cs else c # cs);
          v = int (hex_digits 0 (skip_0x u))
      in if neg then max LONG_MIN (- v) else min LONG_MAX v)"

text \<open>The cast \<^verbatim>\<open>(char)\<close> of a \<^verbatim>\<open>long\<close>: the low eight bits.\<close>

definition char_of_long :: "int \<Rightarrow> u8" where
  "char_of_long v = word_of_int v"

text \<open>
  \<^verbatim>\<open>ss << std::hex << std::setw(2) << std::setfill('0') << n\<close> for an
  \<^verbatim>\<open>int\<close> \<open>n \<ge> 0\<close>: the lowercase hexadecimal digits of \<open>n\<close>, filled on the
  left with \<^verbatim>\<open>'0'\<close> up to width 2.
\<close>

definition hex_char :: "nat \<Rightarrow> char" where
  "hex_char d = (if d < 10 then char_of (48 + d) else char_of (87 + d))"

fun hex_str :: "nat \<Rightarrow> string" where
  "hex_str n = (if n < 16 then [hex_char n] else hex_str (n div 16) @ [hex_char (n mod 16)])"

declare hex_str.simps [simp del]

definition setw2 :: "string \<Rightarrow> string" where
  "setw2 s = replicate (2 - length s) CHR ''0'' @ s"

text \<open>\<^verbatim>\<open>operator<<\<close> of an unsigned integer on a stream in its default (decimal) mode.\<close>

definition dec_char :: "nat \<Rightarrow> char" where
  "dec_char d = char_of (48 + d)"

fun dec_str :: "nat \<Rightarrow> string" where
  "dec_str n = (if n < 10 then [dec_char n] else dec_str (n div 10) @ [dec_char (n mod 10)])"

declare dec_str.simps [simp del]

subsection \<open>Wire codec: \<^verbatim>\<open>_load\<close> and \<^verbatim>\<open>store\<close>\<close>

text \<open>
  A write \<^verbatim>\<open>signature[k] = b\<close>. The buffer has 64 bytes; a write at an index
  outside it is undefined behaviour in C++ and is the value \<open>None\<close> here.
\<close>

definition sig_write :: "nat \<Rightarrow> u8 \<Rightarrow> u8 list \<Rightarrow> u8 list option" where
  "sig_write k b sg = (if k < 64 then Some (sg[k := b]) else None)"

text \<open>\<^verbatim>\<open>s.substr(i, 2)\<close>, called with \<open>i < length s\<close> only.\<close>

definition substr2 :: "string \<Rightarrow> nat \<Rightarrow> string" where
  "substr2 s i = take 2 (drop i s)"

text \<open>
  The loop of lines 78--81, from the index \<open>i\<close> on. The counter is an
  \<^verbatim>\<open>unsigned int\<close>; the loop leaves at the first write outside the buffer, at
  \<open>i = 128\<close>, so the counter never wraps.
\<close>

function load_signature :: "string \<Rightarrow> nat \<Rightarrow> u8 list \<Rightarrow> u8 list option" where
  "load_signature s i sg =
     (if i < length s then
        (case sig_write (drop_bit 1 i) (char_of_long (strtol16 (substr2 s i))) sg of
           None \<Rightarrow> None
         | Some sg' \<Rightarrow> load_signature s (i + 2) sg')
      else Some sg)"
  by pat_completeness auto
termination
  by (relation "measure (\<lambda>(s, i, sg). length s - i)") auto

declare load_signature.simps [simp del]

datatype fault = Out_of_bounds_write

text \<open>
  \<^verbatim>\<open>pricing_record::_load\<close> (lines 68--87). The argument \<open>src\<close> is the outcome of
  \<^verbatim>\<open>in._load(src, hparent)\<close>, the key-value loader of the epee library: \<open>None\<close>
  when it returned false, the loaded struct otherwise. The result is the returned
  boolean with the record as the call leaves it.
\<close>

definition load :: "pricing_record \<Rightarrow> pr_serialized option \<Rightarrow> fault + (bool \<times> pricing_record)" where
  "load this src =
     (case src of
        None \<Rightarrow> Inr (False, this)
      | Some inp \<Rightarrow>
          (case load_signature (w_signature inp) 0 (signature this) of
             None \<Rightarrow> Inl Out_of_bounds_write
           | Some sg \<Rightarrow>
               Inr (True, \<lparr>pr_version = w_pr_version inp, spot = w_spot inp,
                          moving_average = w_moving_average inp,
                          timestamp = w_timestamp inp, signature = sg\<rparr>)))"

text \<open>
  The loop of lines 92--96 (and again 151--155): the 64 bytes of the buffer, each as
  \<^verbatim>\<open>0xff & signature[i]\<close> printed in two hexadecimal digits.
\<close>

definition sig_hex :: "u8 list \<Rightarrow> string" where
  "sig_hex sg = concat (map (\<lambda>i. setw2 (hex_str (unat (sg ! i)))) [0..<64])"

text \<open>
  \<^verbatim>\<open>pricing_record::store\<close> (lines 89--99): the struct \<open>out\<close> that is handed to
  the key-value writer of the epee library.
\<close>

definition store :: "pricing_record \<Rightarrow> pr_serialized" where
  "store this =
     \<lparr>w_pr_version = pr_version this, w_spot = spot this,
      w_moving_average = moving_average this, w_timestamp = timestamp this,
      w_signature = sig_hex (signature this)\<rparr>"

subsection \<open>Equality and the empty record\<close>

text \<open>
  \<^verbatim>\<open>pricing_record::equal\<close> (lines 120--127): the four integers and a
  \<^verbatim>\<open>memcmp\<close> of the two 64-byte buffers.
\<close>

definition equal :: "pricing_record \<Rightarrow> pricing_record \<Rightarrow> bool" where
  "equal this other =
     (pr_version this = pr_version other \<and>
      spot this = spot other \<and>
      moving_average this = moving_average other \<and>
      timestamp this = timestamp other \<and>
      signature this = signature other)"

text \<open>\<^verbatim>\<open>pricing_record::empty\<close> (lines 129--133).\<close>

definition empty :: "pricing_record \<Rightarrow> bool" where
  "empty this = equal this pricing_record_default"

text \<open>\<^verbatim>\<open>pricing_record::has_missing_rates\<close> (lines 193--196).\<close>

definition has_missing_rates :: "pricing_record \<Rightarrow> bool" where
  "has_missing_rates this = (spot this = 0 \<or> moving_average this = 0)"

subsection \<open>Signature verification\<close>

text \<open>
  The OpenSSL calls of \<^verbatim>\<open>verifySignature\<close> are outside the repository; they are a
  parameter of the model, a record of functions over a type \<open>'k\<close> of keys and a type
  \<open>'c\<close> of digest contexts. \<^verbatim>\<open>BIO_new_mem_buf\<close> says whether the buffer was
  allocated, \<^verbatim>\<open>PEM_read_bio_PUBKEY\<close> gives the key or \<open>None\<close> for a null
  pointer, \<^verbatim>\<open>EVP_MD_CTX_create\<close> gives the context or \<open>None\<close>; the three
  \<^verbatim>\<open>EVP_DigestVerify\<close> calls return their \<^verbatim>\<open>int\<close>, the first two with
  the context as they leave it.
\<close>

record ('k, 'c) openssl =
  BIO_new_mem_buf :: "string \<Rightarrow> bool"
  PEM_read_bio_PUBKEY :: "string \<Rightarrow> 'k option"
  EVP_MD_CTX_create :: "'c option"
  EVP_DigestVerifyInit :: "'c \<Rightarrow> 'k \<Rightarrow> int \<times> 'c"
  EVP_DigestVerifyUpdate :: "'c \<Rightarrow> string \<Rightarrow> int \<times> 'c"
  EVP_DigestVerifyFinal :: "'c \<Rightarrow> u8 list \<Rightarrow> int"

text \<open>
  \<^verbatim>\<open>CHECK_AND_ASSERT_THROW_MES\<close> throws a \<^verbatim>\<open>std::runtime_error\<close> that
  carries the message.
\<close>

datatype exn = Runtime_error string

text \<open>The message built on the \<^verbatim>\<open>ostringstream\<close> of lines 158--164, one \<^verbatim>\<open><<\<close> after the other.\<close>

definition build_message :: "pricing_record \<Rightarrow> string" where
  \<open>build_message this =
     (let oss = [];
          oss = oss @ ''{"pr_version":'' @ dec_str (unat (pr_version this));
          oss = oss @ '',"spot":'' @ dec_str (unat (spot this));
          oss = oss @ '',"moving_average":'' @ dec_str (unat (moving_average this));
          oss = oss @ '',"timestamp":'' @ dec_str (unat (timestamp this));
          oss = oss @ ''}''
      in oss)\<close>

text \<open>
  \<^verbatim>\<open>pricing_record::verifySignature\<close> (lines 135--191). The hexadecimal text
  \<open>sig_hex\<close> of lines 150--155 is computed and not used, as in the source.
\<close>

definition verifySignature ::
  "('k, 'c) openssl \<Rightarrow> pricing_record \<Rightarrow> string \<Rightarrow> exn + bool" where
  "verifySignature ssl this public_key =
     (if public_key = [] then
        Inl (Runtime_error (''Pricing record verification failed. NULL public key. PK Size: ''
               @ dec_str (length public_key)))
      else if \<not> BIO_new_mem_buf ssl public_key then Inr False
      else
        (case PEM_read_bio_PUBKEY ssl public_key of
           None \<Rightarrow> Inl (Runtime_error ''Pricing record verification failed. NULL public key.'')
         | Some pubkey \<Rightarrow>
             (let sig_hex = sig_hex (signature this);
                  message = build_message this;
                  ret =
                    (case EVP_MD_CTX_create ssl of
                       None \<Rightarrow> 0
                     | Some ctx \<Rightarrow>
                         (case EVP_DigestVerifyInit ssl ctx pubkey of
                            (ret, ctx) \<Rightarrow>
                              if ret = 1 then
                                (case EVP_DigestVerifyUpdate ssl ctx message of
                                   (ret, ctx) \<Rightarrow>
                                     if ret = 1
                                     then EVP_DigestVerifyFinal ssl ctx (take 64 (signature this))
                                     else ret)
                              else ret))
              in if ret = 1 then Inr True else Inr False)))"

subsection \<open>Admissibility\<close>

text \<open>
  \<^verbatim>\<open>cryptonote::network_type\<close>, \<^verbatim>\<open>get_config\<close> and the two macros
  \<^verbatim>\<open>HF_VERSION_SLIPPAGE_YIELD\<close> and
  \<^verbatim>\<open>PRICING_RECORD_VALID_TIME_DIFF_FROM_BLOCK\<close> are declared in
  \<^verbatim>\<open>cryptonote_config.h\<close>, which is not part of the source at hand. The enumeration
  is written out; the configuration and the two constants are a parameter of
  \<^verbatim>\<open>valid\<close>, at the types the comparisons of the source convert them to.
\<close>

datatype network_type = MAINNET | TESTNET | STAGENET | FAKECHAIN | UNDEFINED

record config_t =
  ORACLE_PUBLIC_KEY :: string

record cryptonote_config =
  HF_VERSION_SLIPPAGE_YIELD :: u32
  PRICING_RECORD_VALID_TIME_DIFF_FROM_BLOCK :: u64
  get_config :: "network_type \<Rightarrow> config_t"

text \<open>
  \<^verbatim>\<open>pricing_record::valid\<close> (lines 199--232). The result is the returned boolean
  with the lines written by \<^verbatim>\<open>LOG_ERROR\<close>, or the exception that
  \<^verbatim>\<open>verifySignature\<close> threw. The sum \<^verbatim>\<open>bl_timestamp + ...\<close> is a sum of
  \<^verbatim>\<open>uint64_t\<close> and wraps.
\<close>

definition valid ::
  "cryptonote_config \<Rightarrow> ('k, 'c) openssl \<Rightarrow> pricing_record \<Rightarrow>
   network_type \<Rightarrow> u32 \<Rightarrow> u64 \<Rightarrow> u64 \<Rightarrow> exn + (bool \<times> string list)" where
  "valid cfg ssl this nettype hf_version bl_timestamp last_bl_timestamp =
     (if hf_version < HF_VERSION_SLIPPAGE_YIELD cfg \<and> \<not> empty this then Inr (False, [])
      else if empty this then Inr (True, [])
      else if has_missing_rates this then Inr (False, [''Pricing record has missing rates.''])
      else
        (case verifySignature ssl this (ORACLE_PUBLIC_KEY (get_config cfg nettype)) of
           Inl e \<Rightarrow> Inl e
         | Inr ok \<Rightarrow>
             if \<not> ok then Inr (False, [''Invalid pricing record signature.''])
             else if timestamp this > bl_timestamp + PRICING_RECORD_VALID_TIME_DIFF_FROM_BLOCK cfg
             then Inr (False, [''Pricing record timestamp is too far in the future.''])
             else if timestamp this \<le> last_bl_timestamp
             then Inr (False,
                    [''Pricing record timestamp: '' @ dec_str (unat (timestamp this))
                       @ '', block timestamp: '' @ dec_str (unat bl_timestamp),
                     ''Pricing record timestamp is too old.''])
             else Inr (True, [])))"

section \<open>The blob reader of \<^verbatim>\<open>src/serialization/pricing_record.h\<close>\<close>

text \<open>
  \<^verbatim>\<open>do_serialize\<close> is a template over the archive class. The three members it
  calls are a record of functions over the type \<open>'a\<close> of archive states;
  \<^verbatim>\<open>serialize_blob(&pr, len, "")\<close> takes the record it writes into and gives it
  back with the archive.
\<close>

record 'a archive =
  remaining_bytes :: "'a \<Rightarrow> nat"
  serialize_blob :: "'a \<Rightarrow> pricing_record \<Rightarrow> nat \<Rightarrow> 'a \<times> pricing_record"
  good :: "'a \<Rightarrow> bool"

text \<open>
  Modelled from the spec: the class declaration (\<^verbatim>\<open>oracle/pricing_record.h\<close>) is
  not in the source, so \<^verbatim>\<open>sizeof(oracle::pricing_record)\<close> is taken from the
  layout the spec gives: four 8-byte integers followed by the 64 signature bytes, 96
  bytes with no padding.
\<close>

definition sizeof_pricing_record :: nat where
  "sizeof_pricing_record = 96"

text \<open>
  The reading overload for \<^verbatim>\<open>oracle::pricing_record\<close> (lines 81--94). The result
  is the returned boolean, the archive and the record as the call leaves them.
\<close>

definition do_serialize ::
  "'a archive \<Rightarrow> 'a \<Rightarrow> pricing_record \<Rightarrow> u8 \<Rightarrow> bool \<times> 'a \<times> pricing_record" where
  "do_serialize A ar pr version =
     (if remaining_bytes A ar < sizeof_pricing_record then (False, ar, pr)
      else
        (case serialize_blob A ar pr sizeof_pricing_record of
           (ar, pr) \<Rightarrow>
             if \<not> good A ar then (False, ar, pr)
             else (True, ar, pr)))"

subsection \<open>A binary read archive\<close>

text \<open>
  The object representation of a record on a little-endian machine: the four integers,
  least significant byte first, in the order of their declaration, then the buffer.
\<close>

definition le_bytes :: "u64 \<Rightarrow> u8 list" where
  "le_bytes w = map (\<lambda>i. ucast (drop_bit (8 * i) w)) [0..<8]"

definition le_u64 :: "u8 list \<Rightarrow> u64" where
  "le_u64 bs = foldr (\<lambda>b w. push_bit 8 w + ucast b) bs 0"

definition to_bytes :: "pricing_record \<Rightarrow> u8 list" where
  "to_bytes pr =
     le_bytes (pr_version pr) @ le_bytes (spot pr) @ le_bytes (moving_average pr)
       @ le_bytes (timestamp pr) @ take 64 (signature pr)"

definition of_bytes :: "u8 list \<Rightarrow> pricing_record" where
  "of_bytes bs =
     \<lparr>pr_version = le_u64 (take 8 bs),
      spot = le_u64 (take 8 (drop 8 bs)),
      moving_average = le_u64 (take 8 (drop 16 bs)),
      timestamp = le_u64 (take 8 (drop 24 bs)),
      signature = take 64 (drop 32 bs)\<rparr>"

text \<open>
  Modelled from the spec: the archive class that \<^verbatim>\<open>do_serialize\<close> is instantiated
  with (\<^verbatim>\<open>remaining_bytes\<close>, \<^verbatim>\<open>serialize_blob\<close>, \<^verbatim>\<open>good\<close>) is
  not in the source. The spec's binary blob is a byte sequence read from the front:
  the archive holds the bytes not yet read and a flag; reading \<open>len\<close> bytes copies
  what is there, at most \<open>len\<close> bytes, over the front of the object, removes it from
  the input, and clears the flag when fewer than \<open>len\<close> bytes were there.
\<close>

record binary_archive =
  bytes :: "u8 list"
  good_flag :: bool

definition binary_serialize_blob ::
  "binary_archive \<Rightarrow> pricing_record \<Rightarrow> nat \<Rightarrow> binary_archive \<times> pricing_record" where
  "binary_serialize_blob ar pr len =
     (let actual = min len (length (bytes ar));
          buf = take actual (bytes ar) @ drop actual (to_bytes pr)
      in (\<lparr>bytes = drop actual (bytes ar), good_flag = (good_flag ar \<and> len = actual)\<rparr>,
          of_bytes buf))"

definition binary_read :: "binary_archive archive" where
  "binary_read =
     \<lparr>remaining_bytes = (\<lambda>ar. length (bytes ar)),
      serialize_blob = binary_serialize_blob,
      good = good_flag\<rparr>"

section \<open>The signed message in the words of the specification\<close>

text \<open>
  The specification gives the signed message as the text
  \<^verbatim>\<open>{"pr_version":<u64>,"spot":<u64>,"moving_average":<u64>,"timestamp":<u64>}\<close>
  with decimal integers and no white space. The decimal numeral of a number is taken
  here from its digits, least significant first, independently of the printing
  function \<open>dec_str\<close> of the stream.
\<close>

fun digits_lsd :: "nat \<Rightarrow> nat list" where
  "digits_lsd n = (if n = 0 then [] else n mod 10 # digits_lsd (n div 10))"

declare digits_lsd.simps [simp del]

definition decimal :: "nat \<Rightarrow> string" where
  "decimal n = (if n = 0 then ''0'' else map (\<lambda>d. char_of (48 + d)) (rev (digits_lsd n)))"

definition spec_signed_message :: "nat \<Rightarrow> nat \<Rightarrow> nat \<Rightarrow> nat \<Rightarrow> string" where
  \<open>spec_signed_message version spot_v moving_average_v timestamp_v =
     concat [''{"pr_version":'', decimal version, '',"spot":'', decimal spot_v,
             '',"moving_average":'', decimal moving_average_v,
             '',"timestamp":'', decimal timestamp_v, ''}'']\<close>

section \<open>Worked examples\<close>

text \<open>
  A small stand-in for the signature library: the only key it reads is the text
  \<^verbatim>\<open>KEY\<close>, a context collects the key and the data fed to it, and a signature
  verifies when each of its 64 bytes is the length of the data.
\<close>

definition example_ssl :: "(string, string \<times> string) openssl" where
  "example_ssl =
     \<lparr>BIO_new_mem_buf = (\<lambda>pem. True),
      PEM_read_bio_PUBKEY = (\<lambda>pem. if pem = ''KEY'' then Some pem else None),
      EVP_MD_CTX_create = Some ([], []),
      EVP_DigestVerifyInit = (\<lambda>ctx key. (1, (key, []))),
      EVP_DigestVerifyUpdate = (\<lambda>ctx msg. (1, (fst ctx, snd ctx @ msg))),
      EVP_DigestVerifyFinal =
        (\<lambda>ctx sg. if sg = replicate 64 (of_nat (length (snd ctx))) then 1 else 0)\<rparr>"

text \<open>A configuration with the activation version 255 and a tolerance of 120 seconds.\<close>

definition example_config :: cryptonote_config where
  "example_config =
     \<lparr>HF_VERSION_SLIPPAGE_YIELD = 255,
      PRICING_RECORD_VALID_TIME_DIFF_FROM_BLOCK = 120,
      get_config = (\<lambda>n. \<lparr>ORACLE_PUBLIC_KEY = ''KEY''\<rparr>)\<rparr>"

text \<open>
  The record of the specification's examples, signed for \<open>example_ssl\<close> (its message
  has 64 characters); the same record with a zeroed signature, with a timestamp far in
  the future (a message of 73 characters), and with no spot price.
\<close>

definition example_record :: pricing_record where
  "example_record =
     \<lparr>pr_version = 1, spot = 100, moving_average = 95, timestamp = 1000,
      signature = replicate 64 64\<rparr>"

definition example_forged :: pricing_record where
  "example_forged = example_record\<lparr>signature := replicate 64 0\<rparr>"

definition example_future :: pricing_record where
  "example_future =
     \<lparr>pr_version = 1, spot = 100, moving_average = 95, timestamp = 2000000000000,
      signature = replicate 64 73\<rparr>"

definition example_no_spot :: pricing_record where
  "example_no_spot = example_record\<lparr>spot := 0\<rparr>"

text \<open>A wire record whose signature text has odd length, three characters, one of them no hexadecimal digit.\<close>

definition example_wire :: pr_serialized where
  "example_wire =
     \<lparr>w_pr_version = 1, w_spot = 100, w_moving_average = 95, w_timestamp = 1000,
      w_signature = ''1g2''\<rparr>"

text \<open>The 96 bytes of \<open>example_record\<close> on a little-endian machine, and one byte more.\<close>

definition example_blob :: "u8 list" where
  "example_blob =
     [1, 0, 0, 0, 0, 0, 0, 0] @ [100, 0, 0, 0, 0, 0, 0, 0] @ [95, 0, 0, 0, 0, 0, 0, 0]
       @ [232, 3, 0, 0, 0, 0, 0, 0] @ replicate 64 64 @ [7]"

section \<open>Properties of the wire codec\<close>

subsection \<open>One byte through \<^verbatim>\<open>store\<close> and back\<close>

lemma hex_digit_val_hex_char: "d < 16 \<Longrightarrow> hex_digit_val (hex_char d) = Some d"
  by (auto simp: hex_digit_val_def hex_char_def Let_def)

lemma hex_char_not_space: "d < 16 \<Longrightarrow> \<not> isspace (hex_char d)"
  by (auto simp: isspace_def hex_char_def Let_def)

lemma hex_char_0: "hex_char 0 = CHR ''0''"
  by code_simp

lemma hex_char_not_nul: "d < 16 \<Longrightarrow> hex_char d \<noteq> CHR 0x00"
  using hex_digit_val_hex_char[of d] by (auto simp: hex_digit_val_def)

lemma hex_char_not_sign: "d < 16 \<Longrightarrow> hex_char d \<noteq> CHR ''-'' \<and> hex_char d \<noteq> CHR ''+''"
  using hex_digit_val_hex_char[of d] by (auto simp: hex_digit_val_def)

lemma setw2_hex_str: "n < 256 \<Longrightarrow> setw2 (hex_str n) = [hex_char (n div 16), hex_char (n mod 16)]"
proof (cases "n < 16")
  case True
  then show ?thesis by (subst hex_str.simps) (simp add: setw2_def hex_char_0)
next
  case False
  assume "n < 256"
  then have "n div 16 < 16" by simp
  then have "hex_str (n div 16) = [hex_char (n div 16)]" by (subst hex_str.simps) simp
  with False show ?thesis
    by (subst hex_str.simps) (simp add: setw2_def)
qed

lemma strtol16_two: 
  assumes "a < 16" "b < 16"
  shows "strtol16 [hex_char a, hex_char b] = int (16 * a + b)"
  using assms hex_char_not_nul[of a] hex_char_not_nul[of b] hex_char_not_space[of a]
    hex_char_not_sign[of a] hex_digit_val_hex_char[of a] hex_digit_val_hex_char[of b]
  by (simp add: strtol16_def c_str_def Let_def LONG_MAX_def)

lemma byte_roundtrip: "char_of_long (strtol16 (setw2 (hex_str (unat (b::u8))))) = b"
proof -
  have lt: "unat b < 256" using unsigned_less[of b, where ?'a = nat] by simp
  have "strtol16 (setw2 (hex_str (unat b))) = int (unat b)"
    using lt by (simp add: setw2_hex_str strtol16_two)
  then have "strtol16 (setw2 (hex_str (unat b))) = int (unat b)" by simp
  then show ?thesis by (simp add: char_of_long_def)
qed

lemma length_hex_byte: "length (setw2 (hex_str (unat (b::u8)))) = 2"
  using unsigned_less[of b, where ?'a = nat] by (simp add: setw2_hex_str)

lemma map_nth_fun: "map (\<lambda>i. f (xs ! i)) [0..<length xs] = map f xs"
proof -
  have "map (\<lambda>i. f (xs ! i)) [0..<length xs] = map f (map ((!) xs) [0..<length xs])"
    by simp
  also have "\<dots> = map f xs"
    by (simp only: map_nth)
  finally show ?thesis .
qed

lemma sig_hex_alt:
  assumes "length sg = 64"
  shows "sig_hex sg = concat (map (\<lambda>b. setw2 (hex_str (unat b))) sg)"
  using map_nth_fun[of "\<lambda>b. setw2 (hex_str (unat b))" sg] assms
  by (simp add: sig_hex_def)

lemma hex_char_lower_upto: "list_all (\<lambda>d. hex_char d \<in> set ''0123456789abcdef'') [0..<16]"
  by code_simp

lemma hex_char_lower: "d < 16 \<Longrightarrow> hex_char d \<in> set ''0123456789abcdef''"
  using hex_char_lower_upto unfolding list_all_iff by simp

lemma sig_hex_lower:
  assumes "length bs = 64"
  shows "set (sig_hex bs) \<subseteq> set ''0123456789abcdef''"
proof
  fix c assume "c \<in> set (sig_hex bs)"
  then obtain b where "c \<in> set (setw2 (hex_str (unat (b::u8))))"
    using sig_hex_alt[OF assms] by auto
  moreover have "unat b < 256" using unsigned_less[of b, where ?'a = nat] by simp
  ultimately have "c = hex_char (unat b div 16) \<or> c = hex_char (unat b mod 16)"
    by (simp add: setw2_hex_str)
  moreover have "unat b div 16 < 16" using \<open>unat b < 256\<close> by simp
  ultimately show "c \<in> set ''0123456789abcdef''"
    using hex_char_lower[of "unat b div 16"] hex_char_lower[of "unat b mod 16"] by auto
qed

subsection \<open>The decoding loop\<close>

lemma load_signature_None_iff:
  "even i \<Longrightarrow> i \<le> 128 \<Longrightarrow> (load_signature s i sg = None) = (128 < length s)"
proof (induction s i sg rule: load_signature.induct)
  case (1 s i sg)
  show ?case
  proof (cases "i < length s")
    case False
    with "1.prems" show ?thesis by (subst load_signature.simps) simp
  next
    case True
    show ?thesis
    proof (cases "i = 128")
      case True
      with \<open>i < length s\<close> show ?thesis
        by (subst load_signature.simps) (simp add: sig_write_def drop_bit_eq_div)
    next
      case False
      with "1.prems" have lt: "i + 2 \<le> 128" "i div 2 < 64" by presburger+
      from lt have w: "sig_write (drop_bit 1 i) (char_of_long (strtol16 (substr2 s i))) sg
          = Some (sg[i div 2 := char_of_long (strtol16 (substr2 s i))])"
        by (simp add: sig_write_def drop_bit_eq_div)
      have "(load_signature s (i + 2) (sg[i div 2 := char_of_long (strtol16 (substr2 s i))]) = None)
          = (128 < length s)"
        using "1.IH"[OF True w] "1.prems" lt by simp
      with True w show ?thesis by (subst load_signature.simps) simp
    qed
  qed
qed

lemma load_signature_result:
  "load_signature s i sg = Some sg' \<Longrightarrow> even i \<Longrightarrow>
   length sg' = length sg \<and>
   (\<forall>k < length sg. sg' ! k =
      (if i \<le> 2 * k \<and> 2 * k < length s then char_of_long (strtol16 (substr2 s (2 * k))) else sg ! k))"
proof (induction s i sg arbitrary: sg' rule: load_signature.induct)
  case (1 s i sg)
  show ?case
  proof (cases "i < length s")
    case False
    with "1.prems" show ?thesis by (subst (asm) load_signature.simps) auto
  next
    case True
    let ?b = "char_of_long (strtol16 (substr2 s i))"
    from "1.prems"(1) True have k64: "i div 2 < 64"
      by (subst (asm) load_signature.simps) (auto simp: sig_write_def drop_bit_eq_div split: if_splits)
    then have w: "sig_write (drop_bit 1 i) ?b sg = Some (sg[i div 2 := ?b])"
      by (simp add: sig_write_def drop_bit_eq_div)
    from "1.prems"(1) True w have rec: "load_signature s (i + 2) (sg[i div 2 := ?b]) = Some sg'"
      by (subst (asm) load_signature.simps) simp
    from "1.IH"[OF True w rec] "1.prems"(2)
    have ih: "length sg' = length sg"
      "\<And>k. k < length sg \<Longrightarrow> sg' ! k =
        (if i + 2 \<le> 2 * k \<and> 2 * k < length s then char_of_long (strtol16 (substr2 s (2 * k)))
         else (sg[i div 2 := ?b]) ! k)"
      by auto
    have "sg' ! k = (if i \<le> 2 * k \<and> 2 * k < length s then char_of_long (strtol16 (substr2 s (2 * k))) else sg ! k)"
      if k: "k < length sg" for k
    proof (cases "k = i div 2")
      case True
      with \<open>even i\<close> have i: "i = 2 * k" by auto
      have "sg' ! k = (sg[i div 2 := ?b]) ! k"
        using ih(2)[OF k] i by simp
      also have "\<dots> = ?b" using True k by simp
      finally show ?thesis using \<open>i < length s\<close> i by simp
    next
      case False
      with \<open>even i\<close> have "i \<le> 2 * k \<longleftrightarrow> i + 2 \<le> 2 * k" by presburger
      with ih(2)[OF k] False show ?thesis by simp
    qed
    then have "\<forall>k < length sg. sg' ! k =
      (if i \<le> 2 * k \<and> 2 * k < length s then char_of_long (strtol16 (substr2 s (2 * k))) else sg ! k)"
      by blast
    with ih(1) show ?thesis by (rule conjI)
  qed
qed

lemma drop_concat_pairs:
  "(\<And>x. length (f x) = 2) \<Longrightarrow> drop (2 * k) (concat (map f xs)) = concat (map f (drop k xs))"
proof (induction xs arbitrary: k)
  case Nil
  then show ?case by simp
next
  case (Cons x xs)
  show ?case
  proof (cases k)
    case 0
    then show ?thesis by simp
  next
    case (Suc j)
    with Cons show ?thesis by simp
  qed
qed

lemma length_concat_pairs:
  "(\<And>x. length (f x) = 2) \<Longrightarrow> length (concat (map f xs)) = 2 * length xs"
  by (induction xs) simp_all

lemma substr2_concat_pairs:
  assumes "\<And>x. length (f x) = 2" and "k < length xs"
  shows "substr2 (concat (map f xs)) (2 * k) = f (xs ! k)"
proof -
  from assms(2) have "drop k xs = xs ! k # drop (Suc k) xs"
    by (simp add: Cons_nth_drop_Suc)
  then have "drop (2 * k) (concat (map f xs)) = f (xs ! k) @ concat (map f (drop (Suc k) xs))"
    using drop_concat_pairs[of f k xs] assms(1) by simp
  then show ?thesis using assms(1) by (simp add: substr2_def)
qed

lemma length_sig_hex: "length bs = 64 \<Longrightarrow> length (sig_hex bs) = 128"
  using length_concat_pairs[of "\<lambda>b::u8. setw2 (hex_str (unat b))" bs, OF length_hex_byte]
  by (simp add: sig_hex_alt)

lemma load_signature_sig_hex:
  assumes "length bs = 64" and "length sg = 64"
  shows "load_signature (sig_hex bs) 0 sg = Some bs"
proof -
  let ?f = "\<lambda>b::u8. setw2 (hex_str (unat b))"
  have two: "\<And>x. length (?f x) = 2" by (rule length_hex_byte)
  have s: "sig_hex bs = concat (map ?f bs)" using assms(1) by (rule sig_hex_alt)
  have len: "length (sig_hex bs) = 128"
    using length_concat_pairs[of ?f bs, OF two] assms(1) s by simp
  then have "load_signature (sig_hex bs) 0 sg \<noteq> None"
    using load_signature_None_iff[of 0 "sig_hex bs" sg] by simp
  then obtain sg' where sg': "load_signature (sig_hex bs) 0 sg = Some sg'" by blast
  from load_signature_result[OF sg'] assms(2)
  have l: "length sg' = 64"
    and nth: "\<And>k. k < 64 \<Longrightarrow> sg' ! k =
      (if 2 * k < length (sig_hex bs) then char_of_long (strtol16 (substr2 (sig_hex bs) (2 * k)))
       else sg ! k)"
    by simp_all
  have "sg' ! k = bs ! k" if k: "k < 64" for k
  proof -
    from k assms(1) have "substr2 (sig_hex bs) (2 * k) = ?f (bs ! k)"
      using substr2_concat_pairs[of ?f k bs, OF two] s by simp
    with nth[OF k] len k show ?thesis by (simp add: byte_roundtrip)
  qed
  with l assms(1) have "sg' = bs" by (simp add: nth_equalityI)
  with sg' show ?thesis by simp
qed

lemma load_store:
  assumes "length (signature r) = 64" and "length (signature this) = 64"
  shows "load this (Some (store r)) = Inr (True, r)"
  using load_signature_sig_hex[OF assms] by (simp add: load_def store_def)

text \<open>
  Claim C2. In the loop of \<^verbatim>\<open>_load\<close> every write to the 64-byte buffer is within
  the indices 0..63 exactly when the signature text has at most 128 characters: the
  loop reaches a write outside the buffer if and only if the text is longer than 128
  characters, and then \<^verbatim>\<open>_load\<close> is the fault \<open>Out_of_bounds_write\<close>.
\<close>

theorem load_signature_out_of_bounds_iff:
  "(load_signature (w_signature inp) 0 (signature this) = None) = (128 < length (w_signature inp)) \<and>
   (load this (Some inp) = Inl Out_of_bounds_write) = (128 < length (w_signature inp))"
proof -
  have a: "(load_signature (w_signature inp) 0 (signature this) = None)
      = (128 < length (w_signature inp))"
    by (rule load_signature_None_iff) simp_all
  then show ?thesis
    by (auto simp: load_def split: option.splits)
qed

theorem load_signature_out_of_bounds_iff_witness:
  "load pricing_record_default (Some (example_wire\<lparr>w_signature := replicate 130 CHR ''0''\<rparr>))
     = Inl Out_of_bounds_write \<and>
   load pricing_record_default (Some (example_wire\<lparr>w_signature := replicate 128 CHR ''0''\<rparr>))
     \<noteq> Inl Out_of_bounds_write"
  using load_signature_out_of_bounds_iff
      [of "example_wire\<lparr>w_signature := replicate 130 CHR ''0''\<rparr>" pricing_record_default]
    load_signature_out_of_bounds_iff
      [of "example_wire\<lparr>w_signature := replicate 128 CHR ''0''\<rparr>" pricing_record_default]
  by simp

text \<open>
  Claim C1, as the claim states it, fails. \<^verbatim>\<open>_load\<close> does not check the signature
  text: the text \<^verbatim>\<open>1g2\<close> has odd length, a character that is no hexadecimal
  digit and not 128 characters, and the call returns true with the bytes 1 and 2 in
  front of the zeros the buffer held.
\<close>

theorem load_accepts_malformed_signature_counterexample:
  "load pricing_record_default
     (Some \<lparr>w_pr_version = 1, w_spot = 100, w_moving_average = 95, w_timestamp = 1000,
            w_signature = ''1g2''\<rparr>)
   = Inr (True, \<lparr>pr_version = 1, spot = 100, moving_average = 95, timestamp = 1000,
                 signature = [1, 2] @ replicate 62 0\<rparr>)"
  by code_simp

text \<open>
  Claim C1, amended. \<^verbatim>\<open>_load\<close> returns false, with the record untouched, when the
  key-value load of the wire fields returned false. For every wire input whose
  signature text has at most 128 characters it returns true, whatever the characters
  are: the four integers are copied, byte \<open>k\<close> of the buffer is the low eight bits of
  \<^verbatim>\<open>strtol\<close> of the chunk of at most two characters at offset \<open>2 * k\<close>, and
  the bytes beyond the text are left as they were.
\<close>

theorem load_short_signature:
  "(length (w_signature inp) \<le> 128 \<longrightarrow>
     (\<exists>sg. load this (Some inp) =
             Inr (True, \<lparr>pr_version = w_pr_version inp, spot = w_spot inp,
                         moving_average = w_moving_average inp,
                         timestamp = w_timestamp inp, signature = sg\<rparr>) \<and>
           length sg = length (signature this) \<and>
           (\<forall>k < length (signature this).
              sg ! k = (if 2 * k < length (w_signature inp)
                        then char_of_long (strtol16 (substr2 (w_signature inp) (2 * k)))
                        else signature this ! k)))) \<and>
   load this None = Inr (False, this)"
proof -
  have "\<exists>sg. load this (Some inp) =
             Inr (True, \<lparr>pr_version = w_pr_version inp, spot = w_spot inp,
                         moving_average = w_moving_average inp,
                         timestamp = w_timestamp inp, signature = sg\<rparr>) \<and>
           length sg = length (signature this) \<and>
           (\<forall>k < length (signature this).
              sg ! k = (if 2 * k < length (w_signature inp)
                        then char_of_long (strtol16 (substr2 (w_signature inp) (2 * k)))
                        else signature this ! k))"
    if le: "length (w_signature inp) \<le> 128"
  proof -
    from le have "load_signature (w_signature inp) 0 (signature this) \<noteq> None"
      using load_signature_None_iff[of 0 "w_signature inp" "signature this"] by simp
    then obtain sg where sg: "load_signature (w_signature inp) 0 (signature this) = Some sg"
      by blast
    from load_signature_result[OF sg] have
      "length sg = length (signature this) \<and>
       (\<forall>k < length (signature this).
              sg ! k = (if 2 * k < length (w_signature inp)
                        then char_of_long (strtol16 (substr2 (w_signature inp) (2 * k)))
                        else signature this ! k))"
      by simp
    with sg show ?thesis by (simp add: load_def)
  qed
  moreover have "load this None = Inr (False, this)" by (simp add: load_def)
  ultimately show ?thesis by blast
qed

theorem load_short_signature_witness:
  "(\<exists>sg. load pricing_record_default (Some example_wire) =
      Inr (True, \<lparr>pr_version = 1, spot = 100, moving_average = 95, timestamp = 1000,
                  signature = sg\<rparr>) \<and>
      length sg = 64 \<and> sg ! 0 = 1 \<and> sg ! 1 = 2 \<and> sg ! 2 = 0) \<and>
   load example_record None = Inr (False, example_record)"
proof -
  have s: "char_of_long (strtol16 (substr2 ''1g2'' 0)) = 1"
    "char_of_long (strtol16 (substr2 ''1g2'' 2)) = 2"
    by code_simp+
  have le: "length (w_signature example_wire) \<le> 128"
    by (simp add: example_wire_def)
  from load_short_signature [of example_wire pricing_record_default] le
  obtain sg where
    l: "load pricing_record_default (Some example_wire) =
          Inr (True, \<lparr>pr_version = w_pr_version example_wire, spot = w_spot example_wire,
                      moving_average = w_moving_average example_wire,
                      timestamp = w_timestamp example_wire, signature = sg\<rparr>)"
    and n: "length sg = length (signature pricing_record_default)"
    and k: "\<forall>k < length (signature pricing_record_default).
              sg ! k = (if 2 * k < length (w_signature example_wire)
                        then char_of_long (strtol16 (substr2 (w_signature example_wire) (2 * k)))
                        else signature pricing_record_default ! k)"
    by blast
  have d: "length (signature pricing_record_default) = 64"
    by (simp add: pricing_record_default_def)
  from k d have "sg ! 0 = 1" "sg ! 1 = 2" "sg ! 2 = 0"
    using s by (simp_all add: example_wire_def pricing_record_default_def)
  with l n d have "load pricing_record_default (Some example_wire) =
      Inr (True, \<lparr>pr_version = 1, spot = 100, moving_average = 95, timestamp = 1000,
                  signature = sg\<rparr>) \<and>
      length sg = 64 \<and> sg ! 0 = 1 \<and> sg ! 1 = 2 \<and> sg ! 2 = 0"
    by (simp add: example_wire_def)
  moreover have "load example_record None = Inr (False, example_record)"
    using load_short_signature [of example_wire example_record] by simp
  ultimately show ?thesis by blast
qed

text \<open>
  Claim C9. For every record \<open>r\<close> (its buffer of 64 bytes),
  \<^verbatim>\<open>store\<close> followed by \<^verbatim>\<open>_load\<close> returns true with a record equal to
  \<open>r\<close>; the hexadecimal text of a 64-byte buffer, read back by the decoding loop, is
  the buffer; and the text has 128 characters, all of them lowercase hexadecimal
  digits. The struct that \<^verbatim>\<open>store\<close> hands to the key-value writer is the one
  \<^verbatim>\<open>_load\<close> gets from the key-value loader.
\<close>

theorem store_load_roundtrip:
  assumes "length (signature r) = 64" and "length (signature this) = 64"
  shows "load this (Some (store r)) = Inr (True, r) \<and>
         load_signature (sig_hex (signature r)) 0 (signature this) = Some (signature r) \<and>
         length (w_signature (store r)) = 128 \<and>
         set (w_signature (store r)) \<subseteq> set ''0123456789abcdef''"
  using load_store[OF assms] load_signature_sig_hex[OF assms] length_sig_hex[OF assms(1)]
    sig_hex_lower[OF assms(1)]
  by (simp add: store_def)

theorem store_load_roundtrip_witness:
  "load pricing_record_default (Some (store example_record)) = Inr (True, example_record) \<and>
   load_signature (sig_hex (signature example_record)) 0 (signature pricing_record_default)
     = Some (signature example_record)"
  using store_load_roundtrip [of example_record pricing_record_default]
  by (simp add: example_record_def pricing_record_default_def)

section \<open>Properties of the signature check\<close>

subsection \<open>Decimal text\<close>

lemma char_of_48: "char_of (48::nat) = CHR ''0''"
  by code_simp

lemma digits_lsd_value: "foldr (\<lambda>d v. d + 10 * v) (digits_lsd n) 0 = n"
proof (induction n rule: less_induct)
  case (less n)
  show ?case
  proof (cases "n = 0")
    case True
    then show ?thesis by (subst digits_lsd.simps) simp
  next
    case False
    then have "n div 10 < n" by simp
    from less[OF this] False show ?thesis by (subst digits_lsd.simps) simp
  qed
qed

lemma dec_str_decimal: "dec_str n = decimal n"
proof (induction n rule: less_induct)
  case (less n)
  show ?case
  proof (cases "n < 10")
    case True
    show ?thesis
    proof (cases "n = 0")
      case True
      then show ?thesis
        by (subst dec_str.simps) (simp add: decimal_def dec_char_def char_of_48)
    next
      case False
      with True have "digits_lsd n = [n]"
        by (subst digits_lsd.simps, subst digits_lsd.simps) simp
      with True False show ?thesis
        by (subst dec_str.simps) (simp add: decimal_def dec_char_def)
    qed
  next
    case False
    then have lt: "n div 10 < n" and nz: "n div 10 \<noteq> 0" "n \<noteq> 0" by simp_all
    have "digits_lsd n = n mod 10 # digits_lsd (n div 10)"
      using nz(2) by (subst digits_lsd.simps) simp
    with less[OF lt] nz False show ?thesis
      by (subst dec_str.simps) (simp add: decimal_def dec_char_def)
  qed
qed

lemma digits_lsd_less: "d \<in> set (digits_lsd n) \<Longrightarrow> d < 10"
proof (induction n rule: less_induct)
  case (less n)
  show ?case
  proof (cases "n = 0")
    case True
    with less.prems show ?thesis by (subst (asm) digits_lsd.simps) simp
  next
    case False
    then have lt: "n div 10 < n" by simp
    from less.prems False have "d = n mod 10 \<or> d \<in> set (digits_lsd (n div 10))"
      by (subst (asm) digits_lsd.simps) simp
    with less.IH[OF lt] show ?thesis by auto
  qed
qed

lemma decimal_digit: "c \<in> set (decimal n) \<Longrightarrow> 48 \<le> (of_char c :: nat) \<and> (of_char c :: nat) \<le> 57"
proof (cases "n = 0")
  case True
  assume "c \<in> set (decimal n)"
  with True show ?thesis by (simp add: decimal_def)
next
  case False
  assume "c \<in> set (decimal n)"
  with False obtain d where d: "d \<in> set (digits_lsd n)" and c: "c = char_of (48 + d)"
    by (auto simp: decimal_def)
  from digits_lsd_less[OF d] c show ?thesis by simp
qed

lemma decimal_not_space: "c \<in> set (decimal n) \<Longrightarrow> \<not> isspace c"
  using decimal_digit[of c n] by (auto simp: isspace_def Let_def)

lemma build_message_spec:
  "build_message r =
     spec_signed_message (unat (pr_version r)) (unat (spot r))
       (unat (moving_average r)) (unat (timestamp r))"
  by (simp add: build_message_def spec_signed_message_def dec_str_decimal Let_def)

lemma spec_message_no_space: "c \<in> set (spec_signed_message a b d e) \<Longrightarrow> \<not> isspace c"
  unfolding spec_signed_message_def
  using decimal_not_space[of c] by (auto simp: isspace_def Let_def)

lemma dec_char_digits:
  "dec_char 0 = CHR ''0''" "dec_char 1 = CHR ''1''" "dec_char 2 = CHR ''2''"
  "dec_char 3 = CHR ''3''" "dec_char 4 = CHR ''4''" "dec_char 5 = CHR ''5''"
  "dec_char 6 = CHR ''6''" "dec_char 7 = CHR ''7''" "dec_char 8 = CHR ''8''"
  "dec_char 9 = CHR ''9''" "dec_char (Suc 0) = CHR ''1''"
  by code_simp+

lemmas dec_eval = dec_str.simps dec_char_digits

lemma example_message:
  \<open>spec_signed_message (Suc 0) 100 95 1000 =
     ''{"pr_version":1,"spot":100,"moving_average":95,"timestamp":1000}''\<close>
  by code_simp

lemma example_record_verifies:
  "verifySignature example_ssl example_record ''KEY'' = Inr True"
  by (simp add: verifySignature_def example_ssl_def example_record_def build_message_def dec_eval)

lemma example_future_verifies:
  "verifySignature example_ssl example_future ''KEY'' = Inr True"
  by (simp add: verifySignature_def example_ssl_def example_future_def build_message_def dec_eval)

lemma example_not_empty: "\<not> empty example_record" "\<not> empty example_future" "\<not> empty example_no_spot"
  by (simp_all add: empty_def equal_def example_record_def example_future_def example_no_spot_def pricing_record_default_def)

text \<open>
  Claim C4. The message that \<^verbatim>\<open>verifySignature\<close> builds is the text of the
  specification, \<^verbatim>\<open>{"pr_version":..,"spot":..,"moving_average":..,"timestamp":..}\<close>
  with the four fields as decimal numerals in this order; it does not depend on the
  signature bytes and has no white space; and with a key that parses and a context
  that initialises, the verdict is that of the library fed with this message and
  given the 64 signature bytes.
\<close>

theorem verifySignature_message:
  "build_message r =
     spec_signed_message (unat (pr_version r)) (unat (spot r))
       (unat (moving_average r)) (unat (timestamp r)) \<and>
   build_message (r\<lparr>signature := sg\<rparr>) = build_message r \<and>
   (\<forall>c \<in> set (build_message r). \<not> isspace c) \<and>
   (public_key \<noteq> [] \<and> BIO_new_mem_buf ssl public_key \<and>
    PEM_read_bio_PUBKEY ssl public_key = Some k \<and> EVP_MD_CTX_create ssl = Some c0 \<and>
    EVP_DigestVerifyInit ssl c0 k = (1, c1) \<longrightarrow>
      verifySignature ssl r public_key =
        Inr (case EVP_DigestVerifyUpdate ssl c1
                    (spec_signed_message (unat (pr_version r)) (unat (spot r))
                       (unat (moving_average r)) (unat (timestamp r))) of
               (ret, c2) \<Rightarrow> ret = 1 \<and> EVP_DigestVerifyFinal ssl c2 (take 64 (signature r)) = 1))"
proof -
  have m: "build_message r =
     spec_signed_message (unat (pr_version r)) (unat (spot r))
       (unat (moving_average r)) (unat (timestamp r))"
    by (rule build_message_spec)
  have s: "build_message (r\<lparr>signature := sg\<rparr>) = build_message r"
    by (simp add: build_message_def)
  have w: "\<forall>c \<in> set (build_message r). \<not> isspace c"
    using spec_message_no_space by (simp add: m)
  have v: "verifySignature ssl r public_key =
        Inr (case EVP_DigestVerifyUpdate ssl c1 (build_message r) of
               (ret, c2) \<Rightarrow> ret = 1 \<and> EVP_DigestVerifyFinal ssl c2 (take 64 (signature r)) = 1)"
    if "public_key \<noteq> []" "BIO_new_mem_buf ssl public_key"
      "PEM_read_bio_PUBKEY ssl public_key = Some k" "EVP_MD_CTX_create ssl = Some c0"
      "EVP_DigestVerifyInit ssl c0 k = (1, c1)"
    using that by (simp add: verifySignature_def Let_def split: prod.splits)
  from m s w v show ?thesis by (simp only: simp_thms) auto
qed

theorem verifySignature_message_witness:
  \<open>build_message example_record =
     ''{"pr_version":1,"spot":100,"moving_average":95,"timestamp":1000}'' \<and>
   build_message example_forged = build_message example_record \<and>
   verifySignature example_ssl example_record ''KEY'' = Inr True\<close>
  using verifySignature_message [of example_record "replicate 64 0" "''KEY''" example_ssl
      "''KEY''" "([], [])" "(''KEY'', [])"]
  by (simp add: example_ssl_def example_record_def example_forged_def example_message)

text \<open>
  Claim C5. \<^verbatim>\<open>verifySignature\<close> throws only when the public key is empty or does
  not parse; with a key that parses it returns false when the context cannot be
  created, when its initialisation fails, and when the signature does not match.
\<close>

theorem verifySignature_throws_only_on_bad_key:
  "(verifySignature ssl r public_key = Inl e \<longrightarrow>
      public_key = [] \<or> PEM_read_bio_PUBKEY ssl public_key = None) \<and>
   (public_key \<noteq> [] \<and> PEM_read_bio_PUBKEY ssl public_key = Some k \<and>
    EVP_MD_CTX_create ssl = None \<longrightarrow> verifySignature ssl r public_key = Inr False) \<and>
   (public_key \<noteq> [] \<and> PEM_read_bio_PUBKEY ssl public_key = Some k \<and>
    EVP_MD_CTX_create ssl = Some c0 \<and> fst (EVP_DigestVerifyInit ssl c0 k) \<noteq> 1 \<longrightarrow>
      verifySignature ssl r public_key = Inr False) \<and>
   (public_key \<noteq> [] \<and> PEM_read_bio_PUBKEY ssl public_key = Some k \<and>
    EVP_MD_CTX_create ssl = Some c0 \<and> EVP_DigestVerifyInit ssl c0 k = (1, c1) \<and>
    EVP_DigestVerifyUpdate ssl c1 (build_message r) = (1, c2) \<and>
    EVP_DigestVerifyFinal ssl c2 (take 64 (signature r)) \<noteq> 1 \<longrightarrow>
      verifySignature ssl r public_key = Inr False)"
  by (auto simp: verifySignature_def Let_def split: option.splits prod.splits if_splits)

theorem verifySignature_throws_only_on_bad_key_witness:
  "verifySignature example_ssl example_forged ''KEY'' = Inr False \<and>
   verifySignature example_ssl example_record [] =
     Inl (Runtime_error ''Pricing record verification failed. NULL public key. PK Size: 0'')"
proof -
  have z: "dec_str 0 = ''0''" by (simp add: dec_eval)
  have t: "verifySignature example_ssl example_record [] =
     Inl (Runtime_error ''Pricing record verification failed. NULL public key. PK Size: 0'')"
    by (simp add: verifySignature_def z)
  have m: "build_message example_forged = spec_signed_message (Suc 0) 100 95 1000"
    by (simp add: build_message_spec example_forged_def example_record_def)
  have sg: "signature example_forged = replicate 64 0"
    by (simp add: example_forged_def)
  have l: "length (spec_signed_message (Suc 0) 100 95 1000) = 64"
    by (simp add: example_message)
  show ?thesis
    using verifySignature_throws_only_on_bad_key [of example_ssl example_forged "''KEY''" "Runtime_error []"
        "''KEY''" "([], [])" "(''KEY'', [])"
        "(''KEY'', spec_signed_message (Suc 0) 100 95 1000)"]
      verifySignature_throws_only_on_bad_key [of example_ssl example_record "[]"
        "Runtime_error ''Pricing record verification failed. NULL public key. PK Size: 0''"]
      t
    by (simp add: example_ssl_def m sg l)
qed

section \<open>Properties of \<^verbatim>\<open>valid\<close>\<close>

lemma future_no_wrap:
  fixes t b d :: u64
  assumes "unat b + unat d < unat t"
  shows "b + d < t"
proof -
  have "unat t < 2 ^ 64" using unsigned_less[of t, where ?'a = nat] by simp
  with assms have "unat (b + d) = unat b + unat d"
    by (simp add: unat_word_ariths)
  with assms show ?thesis by (simp add: word_less_nat_alt)
qed

text \<open>
  Claim C3. Below the activation version \<^verbatim>\<open>valid\<close> returns true if and only if
  the record is empty, whatever the other arguments; and an empty record is valid for
  every protocol version, network, block timestamp and previous block timestamp.
\<close>

theorem valid_below_activation:
  "(hf < HF_VERSION_SLIPPAGE_YIELD cfg \<longrightarrow>
      valid cfg ssl r n hf bl prev = Inr (empty r, [])) \<and>
   (empty r \<longrightarrow> valid cfg ssl r n hf bl prev = Inr (True, []))"
  by (simp add: valid_def)

theorem valid_below_activation_witness:
  "valid example_config example_ssl example_record MAINNET 1 1010 999 = Inr (False, []) \<and>
   valid example_config example_ssl pricing_record_default MAINNET 1 1010 999 = Inr (True, []) \<and>
   valid example_config example_ssl pricing_record_default MAINNET 255 1010 999 = Inr (True, [])"
  using valid_below_activation [of 1 example_config example_ssl example_record MAINNET 1010 999]
    valid_below_activation [of 1 example_config example_ssl pricing_record_default MAINNET 1010 999]
    valid_below_activation [of 255 example_config example_ssl pricing_record_default MAINNET 1010 999]
    example_not_empty
  by (simp add: example_config_def empty_def equal_def)

text \<open>
  Claim C8. At or above the activation version a record that is not empty and has a
  zero spot or a zero moving average is rejected with the line about missing rates,
  for every signature library: the signature is not looked at.
\<close>

theorem valid_missing_rates:
  "HF_VERSION_SLIPPAGE_YIELD cfg \<le> hf \<Longrightarrow> \<not> empty r \<Longrightarrow>
   spot r = 0 \<or> moving_average r = 0 \<Longrightarrow>
   valid cfg ssl r n hf bl prev = Inr (False, [''Pricing record has missing rates.''])"
  by (auto simp: valid_def has_missing_rates_def)

theorem valid_missing_rates_witness:
  "valid example_config example_ssl example_no_spot MAINNET 255 1010 999
     = Inr (False, [''Pricing record has missing rates.''])"
  using valid_missing_rates [of example_config 255 example_no_spot example_ssl MAINNET 1010 999]
    example_not_empty
  by (simp add: example_config_def example_no_spot_def)

text \<open>
  Claim C6, as the claim states it, fails. Below the activation version a record that
  is not empty is rejected before its timestamp is looked at: the example record with
  the timestamp 2000000000000 has nonzero rates and a signature that verifies, its
  timestamp exceeds the block timestamp 1010 plus the tolerance, and at the protocol
  version 1 \<^verbatim>\<open>valid\<close> returns false without the line about the future.
\<close>

theorem valid_future_counterexample:
  "\<not> empty example_future \<and> spot example_future \<noteq> 0 \<and>
   moving_average example_future \<noteq> 0 \<and>
   verifySignature example_ssl example_future
     (ORACLE_PUBLIC_KEY (get_config example_config MAINNET)) = Inr True \<and>
   unat (1010 :: u64) + unat (PRICING_RECORD_VALID_TIME_DIFF_FROM_BLOCK example_config)
     < unat (timestamp example_future) \<and>
   valid example_config example_ssl example_future MAINNET 1 1010 999 = Inr (False, []) \<and>
   valid example_config example_ssl example_future MAINNET 1 1010 999
     \<noteq> Inr (False, [''Pricing record timestamp is too far in the future.''])"
  using example_not_empty example_future_verifies
  by (simp add: valid_def example_config_def example_future_def)

text \<open>
  Claim C6, amended. A record that is not empty, has nonzero rates and a signature
  that verifies is rejected, at every protocol version, whenever its timestamp exceeds
  the block timestamp plus the tolerance, the sum taken over the natural numbers and
  not modulo \<open>2 ^ 64\<close>. At or above the activation version the rejection is the one
  with the line about the future; below the activation version it is the rejection of
  a record that is not empty, with no line.
\<close>

theorem valid_future:
  assumes "\<not> empty r" and "spot r \<noteq> 0" and "moving_average r \<noteq> 0"
    and "verifySignature ssl r (ORACLE_PUBLIC_KEY (get_config cfg n)) = Inr True"
    and "unat bl + unat (PRICING_RECORD_VALID_TIME_DIFF_FROM_BLOCK cfg) < unat (timestamp r)"
  shows "valid cfg ssl r n hf bl prev =
     Inr (False, if hf < HF_VERSION_SLIPPAGE_YIELD cfg then []
                 else [''Pricing record timestamp is too far in the future.''])"
  using assms(1-4) future_no_wrap[OF assms(5)]
  by (simp add: valid_def has_missing_rates_def)

theorem valid_future_witness:
  "valid example_config example_ssl example_future MAINNET 255 1010 999
     = Inr (False, [''Pricing record timestamp is too far in the future.'']) \<and>
   valid example_config example_ssl example_future MAINNET 1 1010 999 = Inr (False, [])"
  using valid_future [of example_future example_ssl example_config MAINNET 1010 255 999]
    valid_future [of example_future example_ssl example_config MAINNET 1010 1 999]
    example_not_empty example_future_verifies
  by (simp add: example_config_def example_future_def)

text \<open>
  Claim C7, as the claim states it, fails. Below the activation version a record that
  is not empty is rejected whatever its timestamp: the example record passes the
  rates check, the signature check and the check against the future, its timestamp
  1000 exceeds the previous block timestamp 999, and \<^verbatim>\<open>valid\<close> returns false.
\<close>

theorem valid_not_advancing_counterexample:
  "\<not> empty example_record \<and> \<not> has_missing_rates example_record \<and>
   verifySignature example_ssl example_record
     (ORACLE_PUBLIC_KEY (get_config example_config MAINNET)) = Inr True \<and>
   \<not> 1010 + PRICING_RECORD_VALID_TIME_DIFF_FROM_BLOCK example_config < timestamp example_record \<and>
   \<not> timestamp example_record \<le> 999 \<and>
   valid example_config example_ssl example_record MAINNET 1 1010 999 = Inr (False, [])"
  using example_not_empty example_record_verifies
  by (simp add: valid_def example_config_def has_missing_rates_def example_record_def)

text \<open>
  Claim C7, amended. At or above the activation version, a record that is not empty
  and passes the rates check, the signature check and the check against the future is
  rejected, with the two lines about its age, if and only if its timestamp is at most
  the previous block timestamp, and is accepted otherwise. At every protocol version,
  an accepted record that is not empty has a timestamp greater than the previous block
  timestamp.
\<close>

theorem valid_not_advancing:
  "(HF_VERSION_SLIPPAGE_YIELD cfg \<le> hf \<and> \<not> empty r \<and> \<not> has_missing_rates r \<and>
    verifySignature ssl r (ORACLE_PUBLIC_KEY (get_config cfg n)) = Inr True \<and>
    \<not> bl + PRICING_RECORD_VALID_TIME_DIFF_FROM_BLOCK cfg < timestamp r \<longrightarrow>
      valid cfg ssl r n hf bl prev =
        (if timestamp r \<le> prev
         then Inr (False,
                [''Pricing record timestamp: '' @ dec_str (unat (timestamp r))
                   @ '', block timestamp: '' @ dec_str (unat bl),
                 ''Pricing record timestamp is too old.''])
         else Inr (True, []))) \<and>
   (\<not> empty r \<and> valid cfg ssl r n hf bl prev = Inr (True, lg) \<longrightarrow> prev < timestamp r)"
  by (auto simp: valid_def split: if_splits sum.splits)

theorem valid_not_advancing_witness:
  "valid example_config example_ssl example_record MAINNET 255 1010 1000 =
     Inr (False, [''Pricing record timestamp: 1000, block timestamp: 1010'',
                  ''Pricing record timestamp is too old.'']) \<and>
   valid example_config example_ssl example_record MAINNET 255 1010 999 = Inr (True, [])"
proof -
  have d: "dec_str 1000 = ''1000''" "dec_str 1010 = ''1010''" by (simp_all add: dec_eval)
  show ?thesis
    using valid_not_advancing [of example_config 255 example_record example_ssl MAINNET 1010 1000]
      valid_not_advancing [of example_config 255 example_record example_ssl MAINNET 1010 999]
      example_not_empty example_record_verifies
    by (simp add: example_config_def example_record_def has_missing_rates_def d)
qed

section \<open>Properties of the blob reader\<close>

lemma of_bytes_prefix: "length xs = 96 \<Longrightarrow> of_bytes (xs @ ys) = of_bytes xs"
  by (simp add: of_bytes_def)

lemma binary_serialize_blob_full:
  assumes "96 \<le> length (bytes ar)"
  shows "binary_serialize_blob ar pr 96 =
     (\<lparr>bytes = drop 96 (bytes ar), good_flag = good_flag ar\<rparr>, of_bytes (take 96 (bytes ar)))"
proof -
  from assms have m: "min 96 (length (bytes ar)) = 96" by simp
  have l: "length (take 96 (bytes ar)) = 96" using assms by simp
  show ?thesis
    unfolding binary_serialize_blob_def Let_def m
    using of_bytes_prefix[OF l] by simp
qed

lemma example_blob_decodes:
  "length example_blob = 97" "drop 96 example_blob = [7]"
  "of_bytes (take 96 example_blob) = example_record"
  by (simp_all add: example_blob_def of_bytes_def le_u64_def example_record_def)

text \<open>
  Claim C10. With fewer than \<^verbatim>\<open>sizeof(oracle::pricing_record)\<close> bytes remaining,
  \<^verbatim>\<open>do_serialize\<close> returns false and leaves the archive and the record as they
  were, for every archive class. With at least that many bytes in a binary archive it
  reads the record whole from the first 96 bytes, removes them from the input, and
  returns the archive's flag.
\<close>

theorem do_serialize_truncated:
  "(remaining_bytes A ar < sizeof_pricing_record \<longrightarrow>
      do_serialize A ar pr version = (False, ar, pr)) \<and>
   (sizeof_pricing_record \<le> length (bytes b) \<longrightarrow>
      do_serialize binary_read b pr version =
        (good_flag b, \<lparr>bytes = drop sizeof_pricing_record (bytes b), good_flag = good_flag b\<rparr>,
         of_bytes (take sizeof_pricing_record (bytes b))))"
proof -
  have "do_serialize binary_read b pr version =
        (good_flag b, \<lparr>bytes = drop sizeof_pricing_record (bytes b), good_flag = good_flag b\<rparr>,
         of_bytes (take sizeof_pricing_record (bytes b)))"
    if "sizeof_pricing_record \<le> length (bytes b)"
    using that binary_serialize_blob_full[of b pr]
    by (simp add: do_serialize_def binary_read_def sizeof_pricing_record_def)
  then show ?thesis by (simp add: do_serialize_def)
qed

theorem do_serialize_truncated_witness:
  "do_serialize binary_read \<lparr>bytes = take 95 example_blob, good_flag = True\<rparr>
      pricing_record_default 0
     = (False, \<lparr>bytes = take 95 example_blob, good_flag = True\<rparr>, pricing_record_default) \<and>
   do_serialize binary_read \<lparr>bytes = example_blob, good_flag = True\<rparr> pricing_record_default 0
     = (True, \<lparr>bytes = [7], good_flag = True\<rparr>, example_record)"
  using do_serialize_truncated [of binary_read "\<lparr>bytes = take 95 example_blob, good_flag = True\<rparr>"
      pricing_record_default 0 "\<lparr>bytes = example_blob, good_flag = True\<rparr>"]
    example_blob_decodes
  by (simp add: binary_read_def sizeof_pricing_record_def)

end
